theory Spec2Isabelle
  imports Main "HOL-Library.Sublist" "HOL-Library.AList"
begin

section \<open>Text\<close>

text \<open>
  Python strings are modelled as ASCII text: a \<^typ>\<open>string\<close> is a list of characters, and a
  character above 127 counts as neither white space nor a letter.
\<close>

definition is_space :: "char \<Rightarrow> bool" where
  \<comment> \<open>the ASCII characters for which Python's \<open>str.isspace\<close> holds\<close>
  "is_space c \<longleftrightarrow>
     c \<in> set [CHR 0x09, CHR 0x0A, CHR 0x0B, CHR 0x0C, CHR 0x0D,
               CHR 0x1C, CHR 0x1D, CHR 0x1E, CHR 0x1F, CHR 0x20]"

definition strip :: "string \<Rightarrow> string" where
  \<comment> \<open>\<open>s.strip()\<close>\<close>
  "strip s = rev (dropWhile is_space (rev (dropWhile is_space s)))"

definition startswith :: "string \<Rightarrow> string \<Rightarrow> bool" where
  \<comment> \<open>\<open>s.startswith(p)\<close>\<close>
  "startswith s p \<longleftrightarrow> prefix p s"

fun find_sub :: "string \<Rightarrow> string \<Rightarrow> (string \<times> string) option" where
  \<comment> \<open>the text before and after the leftmost occurrence of \<open>sep\<close>\<close>
  "find_sub sep [] = (if sep = [] then Some ([], []) else None)"
| "find_sub sep (c # cs) =
     (if prefix sep (c # cs) then Some ([], drop (length sep) (c # cs))
      else map_option (\<lambda>(a, b). (c # a, b)) (find_sub sep cs))"

definition contains :: "string \<Rightarrow> string \<Rightarrow> bool" where
  \<comment> \<open>\<open>sub in s\<close>\<close>
  "contains sub s \<longleftrightarrow> find_sub sub s \<noteq> None"

fun split :: "string \<Rightarrow> string \<Rightarrow> nat \<Rightarrow> string list" where
  \<comment> \<open>\<open>s.split(sep, maxsplit)\<close> for a non-empty \<open>sep\<close>\<close>
  "split s sep 0 = [s]"
| "split s sep (Suc n) =
     (case find_sub sep s of
        None \<Rightarrow> [s]
      | Some (a, b) \<Rightarrow> a # split b sep n)"

fun join :: "string \<Rightarrow> string list \<Rightarrow> string" where
  \<comment> \<open>\<open>sep.join(parts)\<close>\<close>
  "join sep [] = []"
| "join sep [p] = p"
| "join sep (p # q # ps) = p @ sep @ join sep (q # ps)"

definition replace_dash :: "string \<Rightarrow> string" where
  \<comment> \<open>\<open>s.replace('-', ' ')\<close>\<close>
  "replace_dash s = map (\<lambda>c. if c = CHR ''-'' then CHR '' '' else c) s"

definition lower_letters :: string where
  "lower_letters = ''abcdefghijklmnopqrstuvwxyz''"

definition upper_letters :: string where
  "upper_letters = ''ABCDEFGHIJKLMNOPQRSTUVWXYZ''"

definition is_cased :: "char \<Rightarrow> bool" where
  "is_cased c \<longleftrightarrow> c \<in> set lower_letters \<or> c \<in> set upper_letters"

definition to_upper :: "char \<Rightarrow> char" where
  "to_upper c = (case map_of (zip lower_letters upper_letters) c of Some u \<Rightarrow> u | None \<Rightarrow> c)"

definition to_lower :: "char \<Rightarrow> char" where
  "to_lower c = (case map_of (zip upper_letters lower_letters) c of Some l \<Rightarrow> l | None \<Rightarrow> c)"

fun title_from :: "bool \<Rightarrow> string \<Rightarrow> string" where
  \<comment> \<open>the loop of \<open>str.title\<close>; the flag says whether the previous character was a letter\<close>
  "title_from previous_is_cased [] = []"
| "title_from previous_is_cased (c # cs) =
     (if previous_is_cased then to_lower c else to_upper c) # title_from (is_cased c) cs"

definition title :: "string \<Rightarrow> string" where
  \<comment> \<open>\<open>s.title()\<close>\<close>
  "title s = title_from False s"

section \<open>YAML values and Python dictionaries\<close>

text \<open>
  What \<open>yaml.safe_load\<close> returns: null, booleans, integers, strings, sequences and
  mappings with string keys. A mapping keeps the order of its keys, as a Python \<open>dict\<close>
  does, so it is an association list.
\<close>

datatype yval =
    YNull
  | YBool bool
  | YInt int
  | YStr string
  | YList "yval list"
  | YDict "(string \<times> yval) list"

type_synonym pydict = "(string \<times> yval) list"

datatype exn = AttributeError | TypeError | ValueError | OSError | YAMLError

fun truthy :: "yval \<Rightarrow> bool" where
  \<comment> \<open>Python's truth value of an object\<close>
  "truthy YNull = False"
| "truthy (YBool b) = b"
| "truthy (YInt i) = (i \<noteq> 0)"
| "truthy (YStr s) = (s \<noteq> [])"
| "truthy (YList xs) = (xs \<noteq> [])"
| "truthy (YDict d) = (d \<noteq> [])"

definition has_key :: "pydict \<Rightarrow> string \<Rightarrow> bool" where
  \<comment> \<open>\<open>k in d\<close>\<close>
  "has_key d k \<longleftrightarrow> map_of d k \<noteq> None"

definition dict_get :: "pydict \<Rightarrow> string \<Rightarrow> yval \<Rightarrow> yval" where
  \<comment> \<open>\<open>d.get(k, default)\<close>\<close>
  "dict_get d k dflt = (case map_of d k of Some v \<Rightarrow> v | None \<Rightarrow> dflt)"

definition dict_set :: "pydict \<Rightarrow> string \<Rightarrow> yval \<Rightarrow> pydict" where
  \<comment> \<open>\<open>d[k] = v\<close>: an existing key keeps its place, a new key goes last\<close>
  "dict_set d k v = AList.update k v d"

definition dict_without :: "pydict \<Rightarrow> string \<Rightarrow> pydict" where
  \<comment> \<open>\<open>{k': v for k', v in d.items() if k' != k}\<close>, also \<open>d\<close> after \<open>d.pop(k, ...)\<close>\<close>
  "dict_without d k = AList.delete k d"

section \<open>The frontmatter/body splitter\<close>

text \<open>
  \<open>yaml.safe_load\<close> is a parameter \<open>load\<close> of the functions that call it: it returns a
  value or raises. Of its exceptions \<open>parse_embedded_skill_md\<close> catches \<open>yaml.YAMLError\<close>
  only.
\<close>

definition parse_embedded_skill_md ::
  "(string \<Rightarrow> exn + yval) \<Rightarrow> string \<Rightarrow> exn + (yval \<times> string)" where
  "parse_embedded_skill_md load content =
     (if \<not> startswith (strip content) ''---'' then Inr (YDict [], strip content)
      else
        let parts = split content ''---'' 2 in
        if length parts < 3 then Inr (YDict [], strip content)
        else
          let frontmatter_yaml = strip (parts ! 1);
              body = strip (parts ! 2)
          in (case load frontmatter_yaml of
                Inr v \<Rightarrow> Inr (if truthy v then v else YDict [], body)
              | Inl e \<Rightarrow> if e = YAMLError then Inr (YDict [], body) else Inl e))"

text \<open>
  The answers of \<open>yaml.safe_load\<close> on the documents of the examples below. The table is
  closed with \<open>YAMLError\<close>; no example reads that last row.
\<close>

definition safe_load_ref :: "string \<Rightarrow> exn + yval" where
  "safe_load_ref s =
     (if s = [] then Inr YNull
      else if s = ''['' then Inl YAMLError
      else if s = ''date: 2001-02-30'' then Inl ValueError
      else if s = ''name: noop\<newline>'' then Inr (YDict [(''name'', YStr ''noop'')])
      else if s = ''implementation:\<newline>  skill_directory: skills/fetch\<newline>''
        then Inr (YDict [(''implementation'',
                          YDict [(''skill_directory'', YStr ''skills/fetch'')])])
      else if s = ''implementation:\<newline>  type: bash\<newline>''
        then Inr (YDict [(''implementation'', YDict [(''type'', YStr ''bash'')])])
      else if s = ''name: skill-name'' then Inr (YDict [(''name'', YStr ''skill-name'')])
      else if s = ''description: Echoes input''
        then Inr (YDict [(''description'', YStr ''Echoes input'')])
      else if s = ''type: agent\<newline>version: 1.0.0''
        then Inr (YDict [(''type'', YStr ''agent''), (''version'', YStr ''1.0.0'')])
      else Inl YAMLError)"

section \<open>The tool-record converter\<close>

definition utility_body :: "string \<Rightarrow> string" where
  \<comment> \<open>\<open>f"# {name.replace('-', ' ').title()}\n\nUtility tool with no system prompt."\<close>\<close>
  "utility_body name =
     ''# '' @ title (replace_dash name) @ ''\<newline>\<newline>Utility tool with no system prompt.''"

definition no_content_body :: "string \<Rightarrow> string" where
  \<comment> \<open>\<open>f"# {name.replace('-', ' ').title()}\n\n(No content)"\<close>\<close>
  "no_content_body name = ''# '' @ title (replace_dash name) @ ''\<newline>\<newline>(No content)''"

definition normalize_implementation :: "pydict \<Rightarrow> pydict" where
  \<comment> \<open>\<open>if impl.get('type') == 'embedded': impl['type'] = 'bash'\<close>\<close>
  "normalize_implementation impl =
     (if dict_get impl ''type'' YNull = YStr ''embedded''
      then dict_set impl ''type'' (YStr ''bash'') else impl)"

definition add_tags :: "pydict \<Rightarrow> pydict \<Rightarrow> pydict \<Rightarrow> pydict" where
  \<comment> \<open>lines 95 to 98: the record's tags, else the skill frontmatter's\<close>
  "add_tags tool_data skill_frontmatter frontmatter =
     (case map_of tool_data ''tags'' of
        Some tags \<Rightarrow> dict_set frontmatter ''tags'' tags
      | None \<Rightarrow>
          (case map_of skill_frontmatter ''tags'' of
             Some tags \<Rightarrow> dict_set frontmatter ''tags'' tags
           | None \<Rightarrow> frontmatter))"

definition add_parameters :: "pydict \<Rightarrow> pydict \<Rightarrow> pydict" where
  \<comment> \<open>lines 101 and 102\<close>
  "add_parameters tool_data frontmatter =
     (case map_of tool_data ''input_schema'' of
        Some schema \<Rightarrow> dict_set frontmatter ''parameters'' schema
      | None \<Rightarrow> frontmatter)"

definition add_implementation :: "pydict \<Rightarrow> pydict \<Rightarrow> exn + pydict" where
  \<comment> \<open>lines 105 to 110; \<open>impl.get\<close> raises when the field is not a mapping\<close>
  "add_implementation tool_data frontmatter =
     (case map_of tool_data ''implementation'' of
        None \<Rightarrow> Inr frontmatter
      | Some (YDict impl) \<Rightarrow>
          Inr (dict_set frontmatter ''implementation'' (YDict (normalize_implementation impl)))
      | Some _ \<Rightarrow> Inl AttributeError)"

definition add_model :: "pydict \<Rightarrow> pydict \<Rightarrow> exn + pydict" where
  \<comment> \<open>lines 113 to 116\<close>
  "add_model skill_frontmatter frontmatter =
     (case map_of skill_frontmatter ''model'' of
        None \<Rightarrow> Inr frontmatter
      | Some model \<Rightarrow>
          let frontmatter' =
                (if \<not> has_key frontmatter ''llm''
                 then dict_set frontmatter ''llm'' (YDict []) else frontmatter)
          in (case dict_get frontmatter' ''llm'' YNull of
                YDict llm \<Rightarrow>
                  Inr (dict_set frontmatter' ''llm'' (YDict (dict_set llm ''model'' model)))
              | _ \<Rightarrow> Inl TypeError))"

definition leading_fields :: "string \<Rightarrow> pydict \<Rightarrow> pydict \<Rightarrow> pydict" where
  \<comment> \<open>lines 87 to 92\<close>
  "leading_fields tool_name tool_data skill_frontmatter =
     [(''name'', dict_get tool_data ''name'' (YStr tool_name)),
      (''type'', YStr ''tool''),
      (''description'',
         dict_get tool_data ''description''
           (dict_get skill_frontmatter ''description'' (YStr []))),
      (''version'', dict_get tool_data ''version'' (YStr ''1.0.0''))]"

definition tool_frontmatter :: "string \<Rightarrow> pydict \<Rightarrow> pydict \<Rightarrow> exn + pydict" where
  \<comment> \<open>lines 87 to 116: the frontmatter of a tool that has a system prompt\<close>
  "tool_frontmatter tool_name tool_data skill_frontmatter =
     (case add_implementation tool_data
             (add_parameters tool_data
                (add_tags tool_data skill_frontmatter
                   (leading_fields tool_name tool_data skill_frontmatter))) of
        Inl e \<Rightarrow> Inl e
      | Inr frontmatter \<Rightarrow> add_model skill_frontmatter frontmatter)"

definition convert_tool_record ::
  "(string \<Rightarrow> exn + yval) \<Rightarrow> string \<Rightarrow> yval \<Rightarrow> exn + (pydict \<times> string)" where
  \<comment> \<open>lines 75 to 119 of \<open>convert_tool_yaml_to_md\<close>: frontmatter and body from the loaded
      \<open>tool.yaml\<close>; an exception raised here is not caught by the function\<close>
  "convert_tool_record load tool_name loaded =
     (case loaded of
        YDict tool_data \<Rightarrow>
          let system_prompt = dict_get tool_data ''system_prompt'' (YStr []) in
          if \<not> truthy system_prompt then
            (case dict_get tool_data ''name'' (YStr tool_name) of
               YStr name \<Rightarrow> Inr (dict_without tool_data ''system_prompt'', utility_body name)
             | _ \<Rightarrow> Inl AttributeError)
          else
            (case system_prompt of
               YStr content \<Rightarrow>
                 (case parse_embedded_skill_md load content of
                    Inl e \<Rightarrow> Inl e
                  | Inr (YDict skill_frontmatter, skill_body) \<Rightarrow>
                      (case tool_frontmatter tool_name tool_data skill_frontmatter of
                         Inl e \<Rightarrow> Inl e
                       | Inr frontmatter \<Rightarrow>
                           Inr (frontmatter,
                                if skill_body \<noteq> [] then skill_body
                                else no_content_body tool_name))
                  | Inr (_, skill_body) \<Rightarrow> Inl AttributeError)
             | _ \<Rightarrow> Inl AttributeError)
      | _ \<Rightarrow> Inl AttributeError)"

section \<open>The agent-record converter\<close>

definition convert_agent_record :: "string \<Rightarrow> yval \<Rightarrow> exn + (pydict \<times> yval)" where
  \<comment> \<open>lines 156 to 168 of \<open>convert_agent_yaml_to_md\<close>; the body is whatever the record
      holds under \<open>system_prompt\<close>, a string or not\<close>
  "convert_agent_record agent_name loaded =
     (case loaded of
        YDict agent_data \<Rightarrow>
          let system_prompt = dict_get agent_data ''system_prompt'' (YStr []);
              frontmatter0 = dict_without agent_data ''system_prompt'';
              frontmatter1 =
                (if \<not> has_key frontmatter0 ''type''
                 then dict_set frontmatter0 ''type'' (YStr ''agent'') else frontmatter0);
              frontmatter2 =
                (if \<not> has_key frontmatter1 ''version''
                 then dict_set frontmatter1 ''version'' (YStr ''1.0.0'') else frontmatter1)
          in Inr (frontmatter2,
                  if truthy system_prompt then system_prompt
                  else YStr (no_content_body agent_name))
      | YList _ \<Rightarrow> Inl TypeError
      | _ \<Rightarrow> Inl AttributeError)"

section \<open>Files\<close>

text \<open>
  A path is the list of its components. The file system holds the text of each file,
  the entries of each directory (with whether the entry is a directory), and the paths
  that cannot be opened for writing. \<open>yaml.dump\<close> is a parameter \<open>dump\<close>.
\<close>

type_synonym path = "string list"

record fs =
  files :: "path \<Rightarrow> string option"
  dirs :: "path \<Rightarrow> (string \<times> bool) list option"
  read_only :: "path \<Rightarrow> bool"

datatype message =
    FailedRead exn
  | FailedWrite exn
  | ConvertedTo string
  | NoSkillDirectoryReference
  | Updated

definition path_name :: "path \<Rightarrow> string" where
  \<comment> \<open>\<open>p.name\<close>\<close>
  "path_name p = (if p = [] then [] else last p)"

definition read_yaml :: "(string \<Rightarrow> exn + yval) \<Rightarrow> fs \<Rightarrow> path \<Rightarrow> exn + yval" where
  \<comment> \<open>\<open>with open(p, 'r') as f: yaml.safe_load(f)\<close>\<close>
  "read_yaml load s p = (case files s p of None \<Rightarrow> Inl OSError | Some text \<Rightarrow> load text)"

definition serialize_md :: "(yval \<Rightarrow> string) \<Rightarrow> pydict \<Rightarrow> string \<Rightarrow> string" where
  \<comment> \<open>what the four \<open>f.write\<close>/\<open>yaml.dump\<close> calls put into the file\<close>
  "serialize_md dump frontmatter body =
     ''---\<newline>'' @ dump (YDict frontmatter) @ ''---\<newline>\<newline>'' @ body @ ''\<newline>''"

definition write_md ::
  "(yval \<Rightarrow> string) \<Rightarrow> fs \<Rightarrow> path \<Rightarrow> pydict \<Rightarrow> yval \<Rightarrow> (bool \<times> message) \<times> fs" where
  \<comment> \<open>the \<open>try\<close> block that writes the Markdown file; \<open>f.write(body)\<close> raises
      \<open>TypeError\<close> on a body that is not a string, after the frontmatter is written\<close>
  "write_md dump s p frontmatter body =
     (if read_only s p then ((False, FailedWrite OSError), s)
      else case body of
             YStr text \<Rightarrow>
               ((True, ConvertedTo (path_name p)),
                s\<lparr>files := (files s)(p \<mapsto> serialize_md dump frontmatter text)\<rparr>)
           | _ \<Rightarrow>
               ((False, FailedWrite TypeError),
                s\<lparr>files := (files s)
                   (p \<mapsto> ''---\<newline>'' @ dump (YDict frontmatter) @ ''---\<newline>\<newline>'')\<rparr>))"

definition convert_tool_yaml_to_md ::
  "(string \<Rightarrow> exn + yval) \<Rightarrow> (yval \<Rightarrow> string) \<Rightarrow> fs \<Rightarrow> path \<Rightarrow> exn + ((bool \<times> message) \<times> fs)"
  where
  "convert_tool_yaml_to_md load dump s tool_yaml_path =
     (let tool_dir = butlast tool_yaml_path;
          tool_name = path_name tool_dir;
          tool_md_path = tool_dir @ [''tool.md'']
      in case read_yaml load s tool_yaml_path of
           Inl e \<Rightarrow> Inr ((False, FailedRead e), s)
         | Inr tool_data \<Rightarrow>
             (case convert_tool_record load tool_name tool_data of
                Inl e \<Rightarrow> Inl e
              | Inr (frontmatter, body) \<Rightarrow>
                  Inr (write_md dump s tool_md_path frontmatter (YStr body))))"

definition convert_agent_yaml_to_md ::
  "(string \<Rightarrow> exn + yval) \<Rightarrow> (yval \<Rightarrow> string) \<Rightarrow> fs \<Rightarrow> path \<Rightarrow> exn + ((bool \<times> message) \<times> fs)"
  where
  "convert_agent_yaml_to_md load dump s agent_yaml_path =
     (let agent_dir = butlast agent_yaml_path;
          agent_name = path_name agent_dir;
          agent_md_path = agent_dir @ [''agent.md'']
      in case read_yaml load s agent_yaml_path of
           Inl e \<Rightarrow> Inr ((False, FailedRead e), s)
         | Inr agent_data \<Rightarrow>
             (case convert_agent_record agent_name agent_data of
                Inl e \<Rightarrow> Inl e
              | Inr (frontmatter, body) \<Rightarrow>
                  Inr (write_md dump s agent_md_path frontmatter body)))"

section \<open>The batch driver of the converters\<close>

text \<open>
  The two globs of \<open>main\<close> yield paths \<open>plugins/<plugin>/tools/<name>/tool.yaml\<close> and
  \<open>plugins/<plugin>/agents/<name>/agent.yaml\<close>; a candidate is the pair of the plugin
  and the name. \<open>main\<close> calls the converters outside any \<open>try\<close>, so an exception of a
  converter ends the run: the result \<open>Inl\<close>.
\<close>

record tally =
  store :: fs
  converted_tools :: nat
  converted_agents :: nat
  errors :: nat
  printed :: "(string \<times> string \<times> message) list"

fun convert_tools ::
  "(string \<Rightarrow> exn + yval) \<Rightarrow> (yval \<Rightarrow> string) \<Rightarrow> (string \<times> string) list \<Rightarrow> tally \<Rightarrow> exn + tally"
  where
  "convert_tools load dump [] t = Inr t"
| "convert_tools load dump ((plugin_name, tool_name) # rest) t =
     (case convert_tool_yaml_to_md load dump (store t)
             [''plugins'', plugin_name, ''tools'', tool_name, ''tool.yaml''] of
        Inl e \<Rightarrow> Inl e
      | Inr ((success, message), s') \<Rightarrow>
          convert_tools load dump rest
            (if success
             then t\<lparr>store := s', converted_tools := converted_tools t + 1,
                    printed := printed t @ [(plugin_name, tool_name, message)]\<rparr>
             else t\<lparr>store := s', errors := errors t + 1,
                    printed := printed t @ [(plugin_name, tool_name, message)]\<rparr>))"

fun convert_agents ::
  "(string \<Rightarrow> exn + yval) \<Rightarrow> (yval \<Rightarrow> string) \<Rightarrow> (string \<times> string) list \<Rightarrow> tally \<Rightarrow> exn + tally"
  where
  "convert_agents load dump [] t = Inr t"
| "convert_agents load dump ((plugin_name, agent_name) # rest) t =
     (case convert_agent_yaml_to_md load dump (store t)
             [''plugins'', plugin_name, ''agents'', agent_name, ''agent.yaml''] of
        Inl e \<Rightarrow> Inl e
      | Inr ((success, message), s') \<Rightarrow>
          convert_agents load dump rest
            (if success
             then t\<lparr>store := s', converted_agents := converted_agents t + 1,
                    printed := printed t @ [(plugin_name, agent_name, message)]\<rparr>
             else t\<lparr>store := s', errors := errors t + 1,
                    printed := printed t @ [(plugin_name, agent_name, message)]\<rparr>))"

definition convert_main ::
  "(string \<Rightarrow> exn + yval) \<Rightarrow> (yval \<Rightarrow> string) \<Rightarrow> fs \<Rightarrow>
   (string \<times> string) list \<Rightarrow> (string \<times> string) list \<Rightarrow> exn + (nat \<times> tally)" where
  \<comment> \<open>\<open>main\<close> of \<open>convert-to-markdown-format.py\<close>: the exit status and the final counts\<close>
  "convert_main load dump s tool_yamls agent_yamls =
     (case convert_tools load dump tool_yamls
             \<lparr>store = s, converted_tools = 0, converted_agents = 0, errors = 0, printed = []\<rparr> of
        Inl e \<Rightarrow> Inl e
      | Inr t1 \<Rightarrow>
          (case convert_agents load dump agent_yamls t1 of
             Inl e \<Rightarrow> Inl e
           | Inr t2 \<Rightarrow> Inr (if errors t2 > 0 then 1 else 0, t2)))"

section \<open>The embedding step\<close>

definition hex_digit :: "nat \<Rightarrow> char" where
  "hex_digit n = ''0123456789abcdef'' ! (n mod 16)"

definition repr_char :: "char \<Rightarrow> char \<Rightarrow> string" where
  \<comment> \<open>one character inside the quotes of \<open>repr(s)\<close>\<close>
  "repr_char quote c =
     (if c = quote \<or> c = CHR 0x5C then [CHR 0x5C, c]
      else if c = CHR 0x09 then [CHR 0x5C, CHR ''t'']
      else if c = CHR 0x0A then [CHR 0x5C, CHR ''n'']
      else if c = CHR 0x0D then [CHR 0x5C, CHR ''r'']
      else if (of_char c :: nat) < 32 \<or> c = CHR 0x7F
        then [CHR 0x5C, CHR ''x'', hex_digit (of_char c div 16), hex_digit (of_char c)]
      else [c])"

definition repr_str :: "string \<Rightarrow> string" where
  \<comment> \<open>\<open>repr(s)\<close>: double quotes only when the text has a single quote and no double quote\<close>
  "repr_str s =
     (let quote = (if CHR 0x27 \<in> set s \<and> CHR 0x22 \<notin> set s then CHR 0x22 else CHR 0x27)
      in quote # concat (map (repr_char quote) s) @ [quote])"

fun nat_digits :: "nat \<Rightarrow> string" where
  "nat_digits n =
     (if n < 10 then [''0123456789'' ! n]
      else nat_digits (n div 10) @ [''0123456789'' ! (n mod 10)])"

definition repr_int :: "int \<Rightarrow> string" where
  "repr_int i = (if i < 0 then CHR ''-'' # nat_digits (nat (- i)) else nat_digits (nat i))"

fun py_repr :: "yval \<Rightarrow> string" where
  \<comment> \<open>\<open>repr(v)\<close>\<close>
  "py_repr YNull = ''None''"
| "py_repr (YBool b) = (if b then ''True'' else ''False'')"
| "py_repr (YInt i) = repr_int i"
| "py_repr (YStr s) = repr_str s"
| "py_repr (YList xs) = ''['' @ join '', '' (map py_repr xs) @ '']''"
| "py_repr (YDict d) =
     ''{'' @ join '', '' (map (\<lambda>(k, v). repr_str k @ '': '' @ py_repr v) d) @ ''}''"

definition py_str :: "yval \<Rightarrow> string" where
  \<comment> \<open>\<open>str(v)\<close>: a string is itself, anything else its \<open>repr\<close>\<close>
  "py_str v = (case v of YStr s \<Rightarrow> s | _ \<Rightarrow> py_repr v)"

definition embedded_implementation :: yval where
  "embedded_implementation =
     YDict [(''type'', YStr ''embedded''), (''scripts_directory'', YStr ''scripts'')]"

definition needs_no_update :: "pydict \<Rightarrow> bool" where
  \<comment> \<open>the guard of line 23, on a mapping\<close>
  "needs_no_update tool_data \<longleftrightarrow>
     has_key tool_data ''implementation'' \<and>
     \<not> contains ''skill_directory'' (py_str (dict_get tool_data ''implementation'' (YDict [])))"

definition embed_record :: "pydict \<Rightarrow> string \<Rightarrow> pydict" where
  \<comment> \<open>lines 27 to 33: the two assignments\<close>
  "embed_record tool_data skill_content =
     dict_set (dict_set tool_data ''system_prompt'' (YStr skill_content))
       ''implementation'' embedded_implementation"

definition embed_system_prompt ::
  "(string \<Rightarrow> exn + yval) \<Rightarrow> (yval \<Rightarrow> string) \<Rightarrow> fs \<Rightarrow> path \<Rightarrow> path \<Rightarrow>
   exn + ((bool \<times> message) \<times> fs)" where
  \<comment> \<open>nothing is caught here; on a loaded value that is not a mapping the guard or the
      assignment raises\<close>
  "embed_system_prompt load dump s tool_yaml_path skill_md_path =
     (case files s skill_md_path of
        None \<Rightarrow> Inl OSError
      | Some skill_content \<Rightarrow>
          (case read_yaml load s tool_yaml_path of
             Inl e \<Rightarrow> Inl e
           | Inr (YDict tool_data) \<Rightarrow>
               if needs_no_update tool_data then Inr ((False, NoSkillDirectoryReference), s)
               else if read_only s tool_yaml_path then Inl OSError
               else Inr ((True, Updated),
                         s\<lparr>files := (files s)
                            (tool_yaml_path \<mapsto> dump (YDict (embed_record tool_data skill_content)))\<rparr>)
           | Inr (YStr text) \<Rightarrow>
               if contains ''implementation'' text then Inl AttributeError else Inl TypeError
           | Inr (YList xs) \<Rightarrow>
               if YStr ''implementation'' \<in> set xs then Inl AttributeError else Inl TypeError
           | Inr _ \<Rightarrow> Inl TypeError))"

text \<open>
  The driver of the embedding: each plugin of the fixed list, each directory under its
  \<open>tools\<close>. The call of \<open>embed_system_prompt\<close> is inside \<open>try ... except Exception\<close>.
\<close>

record embed_tally =
  embed_store :: fs
  updated :: nat
  skipped :: nat
  embed_errors :: nat

definition plugins :: "string list" where
  "plugins = [''work'', ''repo'', ''file'', ''codex'', ''docs'', ''logs'', ''spec'', ''status'']"

fun embed_tools ::
  "(string \<Rightarrow> exn + yval) \<Rightarrow> (yval \<Rightarrow> string) \<Rightarrow> string \<Rightarrow> (string \<times> bool) list \<Rightarrow>
   embed_tally \<Rightarrow> embed_tally" where
  "embed_tools load dump plugin [] t = t"
| "embed_tools load dump plugin ((tool_name, is_dir) # rest) t =
     embed_tools load dump plugin rest
       (let tool_yaml = [''plugins'', plugin, ''tools'', tool_name, ''tool.yaml''];
            skill_md = [''plugins'', plugin, ''skills'', tool_name, ''SKILL.md'']
        in if \<not> is_dir then t
           else if files (embed_store t) tool_yaml = None then t
           else if files (embed_store t) skill_md = None then t\<lparr>skipped := skipped t + 1\<rparr>
           else (case embed_system_prompt load dump (embed_store t) tool_yaml skill_md of
                   Inl e \<Rightarrow> t\<lparr>embed_errors := embed_errors t + 1\<rparr>
                 | Inr ((success, message), s') \<Rightarrow>
                     if success then t\<lparr>embed_store := s', updated := updated t + 1\<rparr>
                     else t\<lparr>embed_store := s', skipped := skipped t + 1\<rparr>))"

fun embed_plugins ::
  "(string \<Rightarrow> exn + yval) \<Rightarrow> (yval \<Rightarrow> string) \<Rightarrow> string list \<Rightarrow> embed_tally \<Rightarrow> embed_tally"
  where
  "embed_plugins load dump [] t = t"
| "embed_plugins load dump (plugin # rest) t =
     embed_plugins load dump rest
       (case dirs (embed_store t) [''plugins'', plugin, ''tools''] of
          None \<Rightarrow> t
        | Some entries \<Rightarrow> embed_tools load dump plugin entries t)"

definition embed_main ::
  "(string \<Rightarrow> exn + yval) \<Rightarrow> (yval \<Rightarrow> string) \<Rightarrow> fs \<Rightarrow> nat \<times> embed_tally" where
  \<comment> \<open>\<open>main\<close> of \<open>embed-system-prompts.py\<close>\<close>
  "embed_main load dump s =
     (let t = embed_plugins load dump plugins
                \<lparr>embed_store = s, updated = 0, skipped = 0, embed_errors = 0\<rparr>
      in (if embed_errors t > 0 then 1 else 0, t))"

text \<open>
  The answers of \<open>yaml.dump\<close> (block style, keys in insertion order) on the mappings of
  the examples below; the last row is not read by any example.
\<close>

definition dump_ref :: "yval \<Rightarrow> string" where
  "dump_ref v =
     (if v = YDict [(''type'', YStr ''agent''), (''version'', YStr ''1.0.0'')]
        then ''type: agent\<newline>version: 1.0.0\<newline>''
      else if v = YDict [(''name'', YStr ''noop'')] then ''name: noop\<newline>''
      else ''{}\<newline>'')"

text \<open>
  A plugin tree for the examples: the plugin \<open>work\<close> with four tools. The file
  \<open>tool.yaml\<close> of \<open>broken\<close> is empty, \<open>noop\<close> has no skill document, \<open>fetch\<close>
  refers to a skill directory and \<open>shell\<close> does not.
\<close>

definition example_files :: "path \<Rightarrow> string option" where
  "example_files p =
     (if p = [''plugins'', ''work'', ''tools'', ''broken'', ''tool.yaml''] then Some []
      else if p = [''plugins'', ''work'', ''tools'', ''noop'', ''tool.yaml'']
        then Some ''name: noop\<newline>''
      else if p = [''plugins'', ''work'', ''tools'', ''fetch'', ''tool.yaml'']
        then Some ''implementation:\<newline>  skill_directory: skills/fetch\<newline>''
      else if p = [''plugins'', ''work'', ''tools'', ''shell'', ''tool.yaml'']
        then Some ''implementation:\<newline>  type: bash\<newline>''
      else if p = [''plugins'', ''work'', ''skills'', ''broken'', ''SKILL.md'']
        then Some ''Broken.\<newline>''
      else if p = [''plugins'', ''work'', ''skills'', ''fetch'', ''SKILL.md'']
        then Some ''Fetch things.\<newline>''
      else if p = [''plugins'', ''work'', ''skills'', ''shell'', ''SKILL.md'']
        then Some ''Run a command.\<newline>''
      else None)"

definition example_dirs :: "path \<Rightarrow> (string \<times> bool) list option" where
  "example_dirs p =
     (if p = [''plugins'', ''work'', ''tools'']
      then Some [(''broken'', True), (''noop'', True), (''fetch'', True), (''shell'', True),
                 (''README.md'', False)]
      else None)"

definition example_fs :: fs where
  "example_fs = \<lparr>files = example_files, dirs = example_dirs, read_only = (\<lambda>p. False)\<rparr>"

section \<open>Properties of the text functions\<close>

lemma find_sub_join:
  "find_sub sep s = Some (a, b) \<Longrightarrow> s = a @ sep @ b"
proof (induction s arbitrary: a b)
  case Nil
  then show ?case by (simp split: if_splits)
next
  case (Cons c cs)
  show ?case
  proof (cases "prefix sep (c # cs)")
    case True
    with Cons.prems have "a = []" "b = drop (length sep) (c # cs)" by auto
    moreover from True obtain r where "c # cs = sep @ r" by (auto simp: prefix_def)
    ultimately show ?thesis by simp
  next
    case False
    with Cons.prems obtain a' where a': "find_sub sep cs = Some (a', b)" "a = c # a'"
      by (auto split: prod.splits)
    from Cons.IH [OF a'(1)] a'(2) show ?thesis by simp
  qed
qed

lemma join_split: "join sep (split s sep n) = s"
proof (induction n arbitrary: s)
  case 0
  show ?case by simp
next
  case (Suc n)
  show ?case
  proof (cases "find_sub sep s")
    case None
    then show ?thesis by simp
  next
    case (Some p)
    obtain a b where p: "p = (a, b)" by (cases p)
    have nonempty: "split b sep n \<noteq> []" by (cases n) (auto split: option.splits prod.splits)
    then obtain q qs where q: "split b sep n = q # qs" by (cases "split b sep n") auto
    have "join sep (a # q # qs) = a @ sep @ join sep (q # qs)" by simp
    also have "\<dots> = a @ sep @ b" using Suc.IH [of b] q by simp
    also have "\<dots> = s" using find_sub_join Some p by simp
    finally show ?thesis using Some p q by simp
  qed
qed

lemma length_split: "length (split s sep n) \<le> Suc n"
  by (induction n arbitrary: s) (auto split: option.splits)

lemma split_nonempty: "split s sep n \<noteq> []"
  by (cases n) (auto split: option.splits prod.splits)


lemmas text_eval = strip_def startswith_def is_space_def numeral_2_eq_2 Let_def

lemmas title_eval = title_def replace_dash_def to_upper_def to_lower_def is_cased_def
  lower_letters_def upper_letters_def

section \<open>The splitter's contract\<close>



text \<open>
  A field segment on which the loader raises \<open>ValueError\<close> (a date that does not
  exist): the exception leaves the splitter.
\<close>

lemma splitter_other_exception:
  "parse_embedded_skill_md safe_load_ref ''---\<newline>date: 2001-02-30\<newline>---\<newline>body'' =
   Inl ValueError"
  by (simp add: parse_embedded_skill_md_def text_eval safe_load_ref_def)





section \<open>Properties of the dictionary operations and of the frontmatter steps\<close>

lemma map_of_dict_set: "map_of (dict_set d k v) = (map_of d)(k \<mapsto> v)"
  by (simp add: dict_set_def update_conv')

lemma map_of_dict_without: "map_of (dict_without d k) = (map_of d)(k := None)"
  by (simp add: dict_without_def delete_conv')

lemma has_key_dict_set: "has_key (dict_set d k v) k' \<longleftrightarrow> k' = k \<or> has_key d k'"
  by (simp add: has_key_def map_of_dict_set)

lemma take_dict_set:
  "n \<le> length d \<Longrightarrow> k \<notin> fst ` set (take n d) \<Longrightarrow> take n (dict_set d k v) = take n d"
  unfolding dict_set_def
proof (induction d arbitrary: n)
  case Nil
  then show ?case by simp
next
  case (Cons p d)
  then show ?case by (cases n) auto
qed

lemma length_dict_set: "length d \<le> length (dict_set d k v)"
  unfolding dict_set_def by (induction d) auto


lemma lead_dict_set:
  assumes "length l \<le> length d" and "take (length l) d = l" and "k \<notin> fst ` set l"
  shows "length l \<le> length (dict_set d k v) \<and> take (length l) (dict_set d k v) = l"
  using assms take_dict_set [of "length l" d k v] length_dict_set [of d k v]
  by auto

lemma lead_add_tags:
  assumes "length l \<le> length d" and "take (length l) d = l" and "''tags'' \<notin> fst ` set l"
  shows "length l \<le> length (add_tags td sf d) \<and> take (length l) (add_tags td sf d) = l"
  using assms lead_dict_set [OF assms] by (simp add: add_tags_def split: option.splits)

lemma lead_add_parameters:
  assumes "length l \<le> length d" and "take (length l) d = l" and "''parameters'' \<notin> fst ` set l"
  shows "length l \<le> length (add_parameters td d) \<and> take (length l) (add_parameters td d) = l"
  using assms lead_dict_set [OF assms] by (simp add: add_parameters_def split: option.splits)

lemma lead_add_implementation:
  assumes "length l \<le> length d" and "take (length l) d = l"
    and "''implementation'' \<notin> fst ` set l" and "add_implementation td d = Inr d'"
  shows "length l \<le> length d' \<and> take (length l) d' = l"
  using assms lead_dict_set [OF assms(1-3)]
  by (auto simp: add_implementation_def split: option.splits yval.splits)

lemma lead_add_model:
  assumes "length l \<le> length d" and "take (length l) d = l"
    and "''llm'' \<notin> fst ` set l" and "add_model sf d = Inr d'"
  shows "length l \<le> length d' \<and> take (length l) d' = l"
proof (cases "map_of sf ''model''")
  case None
  with assms show ?thesis by (simp add: add_model_def)
next
  case (Some m)
  define d1 where "d1 = (if \<not> has_key d ''llm'' then dict_set d ''llm'' (YDict []) else d)"
  have 1: "length l \<le> length d1 \<and> take (length l) d1 = l"
    using assms(1,2) lead_dict_set [OF assms(1-3)] by (simp add: d1_def)
  from assms(4) Some obtain llm where "d' = dict_set d1 ''llm'' (YDict (dict_set llm ''model'' m))"
    by (auto simp: add_model_def Let_def d1_def split: yval.splits)
  with 1 assms(3) show ?thesis using lead_dict_set [of l d1 "''llm''"] by simp
qed

lemma has_key_leading_fields:
  "has_key (leading_fields n td sf) k \<longleftrightarrow> k \<in> {''name'', ''type'', ''description'', ''version''}"
  by (auto simp: leading_fields_def has_key_def)

lemma has_key_add_tags: "has_key (add_tags td sf d) k \<Longrightarrow> k = ''tags'' \<or> has_key d k"
  by (auto simp: add_tags_def has_key_dict_set split: option.splits)

lemma has_key_add_parameters: "has_key (add_parameters td d) k \<Longrightarrow> k = ''parameters'' \<or> has_key d k"
  by (auto simp: add_parameters_def has_key_dict_set split: option.splits)

lemma has_key_add_implementation:
  "add_implementation td d = Inr d' \<Longrightarrow> has_key d' k \<Longrightarrow> k = ''implementation'' \<or> has_key d k"
  by (auto simp: add_implementation_def has_key_dict_set split: option.splits yval.splits)

lemma add_model_returns: "\<not> has_key d ''llm'' \<Longrightarrow> \<exists>d'. add_model sf d = Inr d'"
  by (simp add: add_model_def dict_get_def map_of_dict_set split: option.splits)

lemma add_implementation_returns:
  assumes "\<And>v. map_of td ''implementation'' = Some v \<Longrightarrow> \<exists>impl. v = YDict impl"
  shows "\<exists>d'. add_implementation td d = Inr d'"
proof (cases "map_of td ''implementation''")
  case None
  then show ?thesis by (simp add: add_implementation_def)
next
  case (Some v)
  with assms obtain impl where "v = YDict impl" by blast
  with Some show ?thesis by (simp add: add_implementation_def)
qed

lemma tool_frontmatter_returns:
  assumes "\<And>v. map_of td ''implementation'' = Some v \<Longrightarrow> \<exists>impl. v = YDict impl"
  shows "\<exists>frontmatter. tool_frontmatter n td sf = Inr frontmatter"
proof -
  from add_implementation_returns [OF assms] obtain d' where
    d': "add_implementation td (add_parameters td (add_tags td sf (leading_fields n td sf))) = Inr d'"
    by blast
  have "\<not> has_key d' ''llm''"
  proof
    assume "has_key d' ''llm''"
    from has_key_add_implementation [OF d' this]
    have "has_key (add_parameters td (add_tags td sf (leading_fields n td sf))) ''llm''" by simp
    from has_key_add_parameters [OF this]
    have "has_key (add_tags td sf (leading_fields n td sf)) ''llm''" by simp
    from has_key_add_tags [OF this] show False by (simp add: has_key_leading_fields)
  qed
  from add_model_returns [OF this] d' show ?thesis by (simp add: tool_frontmatter_def)
qed

lemma tool_frontmatter_take4:
  assumes "tool_frontmatter n td sf = Inr frontmatter"
  shows "take 4 frontmatter = leading_fields n td sf"
proof -
  let ?l = "leading_fields n td sf"
  have len: "length ?l = 4" by (simp add: leading_fields_def)
  have keys: "fst ` set ?l = {''name'', ''type'', ''description'', ''version''}"
    by (auto simp: leading_fields_def)
  from assms obtain d' where
    d': "add_implementation td (add_parameters td (add_tags td sf ?l)) = Inr d'"
    and m: "add_model sf d' = Inr frontmatter"
    by (auto simp: tool_frontmatter_def split: sum.splits)
  have 1: "length ?l \<le> length (add_tags td sf ?l) \<and> take (length ?l) (add_tags td sf ?l) = ?l"
    by (rule lead_add_tags) (simp_all add: keys)
  have 2: "length ?l \<le> length (add_parameters td (add_tags td sf ?l)) \<and>
           take (length ?l) (add_parameters td (add_tags td sf ?l)) = ?l"
    using 1 by (intro lead_add_parameters) (simp_all add: keys)
  have 3: "length ?l \<le> length d' \<and> take (length ?l) d' = ?l"
    using 2 d' by (intro lead_add_implementation [where td = td]) (simp_all add: keys)
  have "length ?l \<le> length frontmatter \<and> take (length ?l) frontmatter = ?l"
    using 3 m by (intro lead_add_model [where sf = sf]) (simp_all add: keys)
  then show ?thesis by (simp add: len)
qed

section \<open>The tool converter without a system prompt\<close>

text \<open>
  C1, as the code has it. For every tool record whose \<open>system_prompt\<close> is absent or
  empty and whose name (the record's, else the directory's) is a string, the converter
  returns: every field of the record other than \<open>system_prompt\<close> is in the frontmatter
  with the record's value, the frontmatter has no \<open>system_prompt\<close> key and, apart
  from \<open>type\<close> and \<open>version\<close>, no key that the record lacks; the body is the heading
  made from the name, followed by the sentence on utility tools.
\<close>

theorem tool_without_system_prompt:
  assumes "\<not> truthy (dict_get tool_data ''system_prompt'' (YStr []))"
    and "dict_get tool_data ''name'' (YStr tool_name) = YStr name"
  shows "\<exists>frontmatter.
     convert_tool_record load tool_name (YDict tool_data) =
       Inr (frontmatter,
            ''# '' @ title (replace_dash name) @
            ''\<newline>\<newline>Utility tool with no system prompt.'') \<and>
     map_of frontmatter ''system_prompt'' = None \<and>
     (\<forall>k v. k \<noteq> ''system_prompt'' \<longrightarrow> map_of tool_data k = Some v \<longrightarrow>
            map_of frontmatter k = Some v) \<and>
     (\<forall>k. k \<noteq> ''type'' \<longrightarrow> k \<noteq> ''version'' \<longrightarrow> map_of tool_data k = None \<longrightarrow>
          map_of frontmatter k = None)"
  using assms
  by (simp add: convert_tool_record_def utility_body_def map_of_dict_without)

theorem tool_without_system_prompt_witness:
  "\<exists>frontmatter.
     convert_tool_record safe_load_ref ''noop-dir'' (YDict [(''name'', YStr ''noop'')]) =
       Inr (frontmatter, ''# Noop\<newline>\<newline>Utility tool with no system prompt.'') \<and>
     map_of frontmatter ''name'' = Some (YStr ''noop'') \<and>
     map_of frontmatter ''parameters'' = None"
proof -
  have 1: "\<not> truthy (dict_get [(''name'', YStr ''noop'')] ''system_prompt'' (YStr []))"
    by (simp add: dict_get_def)
  have 2: "dict_get [(''name'', YStr ''noop'')] ''name'' (YStr ''noop-dir'') = YStr ''noop''"
    by (simp add: dict_get_def)
  have 3: "title (replace_dash ''noop'') = ''Noop''"
    by (simp add: title_eval)
  from tool_without_system_prompt [where load = safe_load_ref, OF 1 2]
  show ?thesis unfolding 3 by auto
qed

text \<open>
  A record without \<open>system_prompt\<close> that has an \<open>implementation\<close> field: the field is in
  the frontmatter, which so has five keys.
\<close>

theorem tool_without_system_prompt_counterexample:
  "\<not> has_key [(''name'', YStr ''noop''), (''type'', YStr ''tool''),
               (''description'', YStr ''Does nothing''), (''version'', YStr ''1.0.0''),
               (''implementation'', YDict [(''type'', YStr ''bash'')])] ''system_prompt'' \<and>
   convert_tool_record safe_load_ref ''noop''
     (YDict [(''name'', YStr ''noop''), (''type'', YStr ''tool''),
             (''description'', YStr ''Does nothing''), (''version'', YStr ''1.0.0''),
             (''implementation'', YDict [(''type'', YStr ''bash'')])]) =
   Inr ([(''name'', YStr ''noop''), (''type'', YStr ''tool''),
         (''description'', YStr ''Does nothing''), (''version'', YStr ''1.0.0''),
         (''implementation'', YDict [(''type'', YStr ''bash'')])],
        ''# Noop\<newline>\<newline>Utility tool with no system prompt.'')"
  by (simp add: convert_tool_record_def has_key_def dict_get_def dict_without_def
      utility_body_def title_eval)

text \<open>
  C2 at the record \<open>{name: noop}\<close>: the converter returns a frontmatter without \<open>type\<close>
  and without \<open>version\<close>, while the agent converter and the tool converter with a
  system prompt put both keys.
\<close>

theorem utility_tool_lacks_type_and_version:
  "convert_tool_record safe_load_ref ''noop'' (YDict [(''name'', YStr ''noop'')]) =
     Inr ([(''name'', YStr ''noop'')],
          ''# Noop\<newline>\<newline>Utility tool with no system prompt.'') \<and>
   \<not> has_key [(''name'', YStr ''noop'')] ''type'' \<and>
   \<not> has_key [(''name'', YStr ''noop'')] ''version''"
  by (simp add: convert_tool_record_def has_key_def dict_get_def dict_without_def
      utility_body_def title_eval)

text \<open>
  The other paths put both keys and a non-empty body.
\<close>

lemma map_of_take:
  "map_of (take n d) k = Some v \<Longrightarrow> map_of d k = Some v"
proof (induction d arbitrary: n)
  case Nil
  then show ?case by simp
next
  case (Cons p d)
  then show ?case by (cases n) (auto split: if_splits)
qed

lemma agent_has_type_and_version:
  assumes "convert_agent_record agent_name (YDict agent_data) = Inr (frontmatter, body)"
  shows "has_key frontmatter ''type'' \<and> has_key frontmatter ''version'' \<and> body \<noteq> YStr []"
  using assms
  by (auto simp: convert_agent_record_def Let_def has_key_dict_set no_content_body_def
      split: if_splits)

lemma tool_with_prompt_has_type_and_version:
  assumes "truthy (dict_get tool_data ''system_prompt'' (YStr []))"
    and "convert_tool_record load tool_name (YDict tool_data) = Inr (frontmatter, body)"
  shows "map_of frontmatter ''type'' = Some (YStr ''tool'') \<and> has_key frontmatter ''version''"
proof -
  from assms obtain sf where "tool_frontmatter tool_name tool_data sf = Inr frontmatter"
    by (auto simp: convert_tool_record_def Let_def split: yval.splits sum.splits prod.splits)
  from tool_frontmatter_take4 [OF this]
  have t: "take 4 frontmatter = leading_fields tool_name tool_data sf" .
  have "map_of (take 4 frontmatter) ''type'' = Some (YStr ''tool'')"
    by (simp add: t leading_fields_def)
  moreover have "map_of (take 4 frontmatter) ''version'' =
      Some (dict_get tool_data ''version'' (YStr ''1.0.0''))"
    by (simp add: t leading_fields_def)
  ultimately show ?thesis by (auto simp: has_key_def dest: map_of_take)
qed

lemma tool_body_nonempty:
  assumes "convert_tool_record load tool_name loaded = Inr (frontmatter, body)"
  shows "body \<noteq> []"
  using assms
  by (auto simp: convert_tool_record_def Let_def utility_body_def no_content_body_def
      split: yval.splits if_splits sum.splits prod.splits)

section \<open>The tool converter with a system prompt\<close>

lemma convert_tool_record_with_prompt:
  assumes "dict_get tool_data ''system_prompt'' (YStr []) = YStr content"
    and "content \<noteq> []"
    and "parse_embedded_skill_md load content = Inr (YDict skill_frontmatter, skill_body)"
  shows "convert_tool_record load tool_name (YDict tool_data) =
     (case tool_frontmatter tool_name tool_data skill_frontmatter of
        Inl e \<Rightarrow> Inl e
      | Inr frontmatter \<Rightarrow>
          Inr (frontmatter, if skill_body \<noteq> [] then skill_body else no_content_body tool_name))"
  using assms by (simp add: convert_tool_record_def)

text \<open>
  C3, as the code has it. For a tool record with a non-empty text as \<open>system_prompt\<close>,
  whose skill frontmatter is a mapping and whose \<open>implementation\<close>, if any, is a mapping,
  the converter returns, and the frontmatter starts with, in this order: \<open>name\<close>, the
  record's if present, else the directory's name (the skill frontmatter's name is not
  used); \<open>type\<close>, the text \<open>tool\<close>; \<open>description\<close>, the record's, else the skill
  frontmatter's, else the empty text; \<open>version\<close>, the record's, else \<open>1.0.0\<close>.
\<close>

theorem tool_leading_fields:
  assumes "dict_get tool_data ''system_prompt'' (YStr []) = YStr content"
    and "content \<noteq> []"
    and "parse_embedded_skill_md load content = Inr (YDict skill_frontmatter, skill_body)"
    and "\<And>v. map_of tool_data ''implementation'' = Some v \<Longrightarrow> \<exists>impl. v = YDict impl"
  shows "\<exists>frontmatter body.
     convert_tool_record load tool_name (YDict tool_data) = Inr (frontmatter, body) \<and>
     take 4 frontmatter =
       [(''name'', case map_of tool_data ''name'' of Some n \<Rightarrow> n | None \<Rightarrow> YStr tool_name),
        (''type'', YStr ''tool''),
        (''description'',
           case map_of tool_data ''description'' of
             Some d \<Rightarrow> d
           | None \<Rightarrow>
               (case map_of skill_frontmatter ''description'' of
                  Some d \<Rightarrow> d
                | None \<Rightarrow> YStr [])),
        (''version'',
           case map_of tool_data ''version'' of Some v \<Rightarrow> v | None \<Rightarrow> YStr ''1.0.0'')]"
proof -
  from tool_frontmatter_returns [OF assms(4)] obtain fm where
    fm: "tool_frontmatter tool_name tool_data skill_frontmatter = Inr fm" by blast
  from tool_frontmatter_take4 [OF fm] have "take 4 fm = leading_fields tool_name tool_data skill_frontmatter" .
  with fm convert_tool_record_with_prompt [OF assms(1-3), of tool_name] show ?thesis
    by (simp add: leading_fields_def dict_get_def)
qed

theorem tool_leading_fields_witness:
  "\<exists>frontmatter body.
     convert_tool_record safe_load_ref ''echo''
       (YDict [(''name'', YStr ''echo''),
               (''system_prompt'',
                YStr ''---\<newline>description: Echoes input\<newline>---\<newline>Run the echo command.'')]) =
       Inr (frontmatter, body) \<and>
     take 4 frontmatter =
       [(''name'', YStr ''echo''), (''type'', YStr ''tool''),
        (''description'', YStr ''Echoes input''), (''version'', YStr ''1.0.0'')]"
proof -
  let ?content = "''---\<newline>description: Echoes input\<newline>---\<newline>Run the echo command.''"
  let ?td = "[(''name'', YStr ''echo''), (''system_prompt'', YStr ?content)]"
  have 1: "dict_get ?td ''system_prompt'' (YStr []) = YStr ?content"
    by (simp add: dict_get_def)
  have 2: "?content \<noteq> []" by simp
  have 3: "parse_embedded_skill_md safe_load_ref ?content =
             Inr (YDict [(''description'', YStr ''Echoes input'')], ''Run the echo command.'')"
    by (simp add: parse_embedded_skill_md_def text_eval safe_load_ref_def)
  have 4: "\<And>v. map_of ?td ''implementation'' = Some v \<Longrightarrow> \<exists>impl. v = YDict impl"
    by simp
  from tool_leading_fields [OF 1 2 3 4, of "''echo''"] show ?thesis by simp
qed

text \<open>
  A record without a name whose skill frontmatter has the name \<open>skill-name\<close>, in the
  directory \<open>dir-name\<close>: the output name is \<open>dir-name\<close>.
\<close>

theorem tool_name_from_skill_counterexample:
  "parse_embedded_skill_md safe_load_ref ''---\<newline>name: skill-name\<newline>---\<newline>Body'' =
     Inr (YDict [(''name'', YStr ''skill-name'')], ''Body'') \<and>
   convert_tool_record safe_load_ref ''dir-name''
     (YDict [(''system_prompt'', YStr ''---\<newline>name: skill-name\<newline>---\<newline>Body'')]) =
     Inr ([(''name'', YStr ''dir-name''), (''type'', YStr ''tool''),
           (''description'', YStr []), (''version'', YStr ''1.0.0'')], ''Body'')"
  by (simp add: convert_tool_record_def parse_embedded_skill_md_def text_eval safe_load_ref_def
      dict_get_def tool_frontmatter_def leading_fields_def add_tags_def add_parameters_def
      add_implementation_def add_model_def)

text \<open>
  C10, as the code has it. For a tool record with a non-empty text as \<open>system_prompt\<close>
  whose split body is empty, the body of the output is
  \<open># <Directory Name Title-Cased>\<close>, a blank line and \<open>(No content)\<close>: it is made from
  the directory's name, whatever the record's name. For a record whose \<open>system_prompt\<close>
  is absent or empty the body is made from the record's name (the directory's when the
  record has none) and ends with the sentence on utility tools. The two texts differ,
  whatever the names.
\<close>

theorem placeholder_bodies:
  "(dict_get tool_data ''system_prompt'' (YStr []) = YStr content \<longrightarrow>
    content \<noteq> [] \<longrightarrow>
    parse_embedded_skill_md load content = Inr (YDict skill_frontmatter, []) \<longrightarrow>
    (\<forall>v. map_of tool_data ''implementation'' = Some v \<longrightarrow> (\<exists>impl. v = YDict impl)) \<longrightarrow>
    (\<exists>frontmatter.
       convert_tool_record load directory (YDict tool_data) =
         Inr (frontmatter, ''# '' @ title (replace_dash directory) @ ''\<newline>\<newline>(No content)''))) \<and>
   (\<not> truthy (dict_get utility_data ''system_prompt'' (YStr [])) \<longrightarrow>
    dict_get utility_data ''name'' (YStr directory) = YStr name \<longrightarrow>
    (\<exists>frontmatter.
       convert_tool_record load directory (YDict utility_data) =
         Inr (frontmatter,
              ''# '' @ title (replace_dash name) @
              ''\<newline>\<newline>Utility tool with no system prompt.''))) \<and>
   ''# '' @ title (replace_dash directory) @ ''\<newline>\<newline>(No content)'' \<noteq>
   ''# '' @ title (replace_dash any_name) @ ''\<newline>\<newline>Utility tool with no system prompt.''"
proof (intro conjI impI)
  assume 1: "dict_get tool_data ''system_prompt'' (YStr []) = YStr content"
    and 2: "content \<noteq> []"
    and 3: "parse_embedded_skill_md load content = Inr (YDict skill_frontmatter, [])"
    and 4: "\<forall>v. map_of tool_data ''implementation'' = Some v \<longrightarrow> (\<exists>impl. v = YDict impl)"
  from 4 tool_frontmatter_returns [of tool_data directory skill_frontmatter] obtain fm where
    "tool_frontmatter directory tool_data skill_frontmatter = Inr fm" by blast
  with convert_tool_record_with_prompt [OF 1 2 3, of directory]
  show "\<exists>frontmatter.
       convert_tool_record load directory (YDict tool_data) =
         Inr (frontmatter, ''# '' @ title (replace_dash directory) @ ''\<newline>\<newline>(No content)'')"
    by (simp add: no_content_body_def)
next
  assume "\<not> truthy (dict_get utility_data ''system_prompt'' (YStr []))"
    and "dict_get utility_data ''name'' (YStr directory) = YStr name"
  then show "\<exists>frontmatter.
       convert_tool_record load directory (YDict utility_data) =
         Inr (frontmatter,
              ''# '' @ title (replace_dash name) @
              ''\<newline>\<newline>Utility tool with no system prompt.'')"
    by (simp add: convert_tool_record_def utility_body_def)
next
  show "''# '' @ title (replace_dash directory) @ ''\<newline>\<newline>(No content)'' \<noteq>
   ''# '' @ title (replace_dash any_name) @ ''\<newline>\<newline>Utility tool with no system prompt.''"
  proof
    assume eq: "''# '' @ title (replace_dash directory) @ ''\<newline>\<newline>(No content)'' =
      ''# '' @ title (replace_dash any_name) @ ''\<newline>\<newline>Utility tool with no system prompt.''"
    have "last (''# '' @ title (replace_dash directory) @ ''\<newline>\<newline>(No content)'') = CHR '')''"
      by simp
    moreover have "last (''# '' @ title (replace_dash any_name) @
        ''\<newline>\<newline>Utility tool with no system prompt.'') = CHR ''.''"
      by simp
    ultimately show False unfolding eq by simp
  qed
qed

theorem placeholder_bodies_witness:
  "(\<exists>frontmatter.
      convert_tool_record safe_load_ref ''my-tool''
        (YDict [(''name'', YStr ''echo''),
                (''system_prompt'', YStr ''---\<newline>description: Echoes input\<newline>---\<newline>'')]) =
      Inr (frontmatter, ''# My Tool\<newline>\<newline>(No content)'')) \<and>
   (\<exists>frontmatter.
      convert_tool_record safe_load_ref ''my-tool'' (YDict [(''name'', YStr ''echo'')]) =
      Inr (frontmatter, ''# Echo\<newline>\<newline>Utility tool with no system prompt.''))"
proof -
  let ?content = "''---\<newline>description: Echoes input\<newline>---\<newline>''"
  let ?td = "[(''name'', YStr ''echo''), (''system_prompt'', YStr ?content)]"
  let ?ud = "[(''name'', YStr ''echo'')]"
  have 1: "dict_get ?td ''system_prompt'' (YStr []) = YStr ?content"
    by (simp add: dict_get_def)
  have 2: "?content \<noteq> []" by simp
  have 3: "parse_embedded_skill_md safe_load_ref ?content =
             Inr (YDict [(''description'', YStr ''Echoes input'')], [])"
    by (simp add: parse_embedded_skill_md_def text_eval safe_load_ref_def)
  have 4: "\<forall>v. map_of ?td ''implementation'' = Some v \<longrightarrow> (\<exists>impl. v = YDict impl)"
    by simp
  have 5: "\<not> truthy (dict_get ?ud ''system_prompt'' (YStr []))"
    by (simp add: dict_get_def)
  have 6: "dict_get ?ud ''name'' (YStr ''my-tool'') = YStr ''echo''"
    by (simp add: dict_get_def)
  have 7: "title (replace_dash ''my-tool'') = ''My Tool''" by (simp add: title_eval)
  have 8: "title (replace_dash ''echo'') = ''Echo''" by (simp add: title_eval)
  from placeholder_bodies [where tool_data = ?td and content = ?content and load = safe_load_ref
      and skill_frontmatter = "[(''description'', YStr ''Echoes input'')]"
      and utility_data = ?ud and directory = "''my-tool''" and name = "''echo''"] 1 2 3 4 5 6
  show ?thesis unfolding 7 8 by simp
qed

text \<open>
  A record whose \<open>system_prompt\<close> is present and is the empty text, with the name
  \<open>echo\<close> in the directory \<open>my-tool\<close>: the split body of the prompt is empty, and the
  body of the output is the one of a utility tool, made from the record's name.
\<close>

theorem placeholder_empty_prompt_counterexample:
  "has_key [(''name'', YStr ''echo''), (''system_prompt'', YStr [])] ''system_prompt'' \<and>
   parse_embedded_skill_md safe_load_ref [] = Inr (YDict [], []) \<and>
   convert_tool_record safe_load_ref ''my-tool''
     (YDict [(''name'', YStr ''echo''), (''system_prompt'', YStr [])]) =
     Inr ([(''name'', YStr ''echo'')],
          ''# Echo\<newline>\<newline>Utility tool with no system prompt.'') \<and>
   ''# Echo\<newline>\<newline>Utility tool with no system prompt.'' \<noteq>
     ''# My Tool\<newline>\<newline>(No content)''"
  by (simp add: convert_tool_record_def parse_embedded_skill_md_def has_key_def dict_get_def
      dict_without_def utility_body_def text_eval title_eval)

section \<open>The agent converter\<close>

text \<open>
  C8. For every agent record the converter returns; the frontmatter has no
  \<open>system_prompt\<close> key; every other field of the record is in the frontmatter with the
  record's value, and apart from \<open>type\<close> and \<open>version\<close> the frontmatter has no key
  that the record lacks; \<open>type\<close> and \<open>version\<close> are the record's when it has them,
  else \<open>agent\<close> and \<open>1.0.0\<close>; the body is the record's \<open>system_prompt\<close> value, or
  the placeholder when that is absent or empty (false in Python's sense).
\<close>

theorem agent_record_contract:
  "\<exists>frontmatter body.
     convert_agent_record agent_name (YDict agent_data) = Inr (frontmatter, body) \<and>
     map_of frontmatter ''system_prompt'' = None \<and>
     (\<forall>k v. k \<noteq> ''system_prompt'' \<longrightarrow> map_of agent_data k = Some v \<longrightarrow>
            map_of frontmatter k = Some v) \<and>
     (\<forall>k. k \<noteq> ''type'' \<longrightarrow> k \<noteq> ''version'' \<longrightarrow> map_of agent_data k = None \<longrightarrow>
          map_of frontmatter k = None) \<and>
     map_of frontmatter ''type'' =
       Some (case map_of agent_data ''type'' of Some t \<Rightarrow> t | None \<Rightarrow> YStr ''agent'') \<and>
     map_of frontmatter ''version'' =
       Some (case map_of agent_data ''version'' of Some v \<Rightarrow> v | None \<Rightarrow> YStr ''1.0.0'') \<and>
     body =
       (case map_of agent_data ''system_prompt'' of
          Some prompt \<Rightarrow>
            if truthy prompt then prompt
            else YStr (''# '' @ title (replace_dash agent_name) @ ''\<newline>\<newline>(No content)'')
        | None \<Rightarrow> YStr (''# '' @ title (replace_dash agent_name) @ ''\<newline>\<newline>(No content)''))"
  by (auto simp: convert_agent_record_def Let_def has_key_def dict_get_def map_of_dict_set
      map_of_dict_without no_content_body_def split: option.splits)

theorem agent_record_contract_witness:
  "\<exists>frontmatter body.
     convert_agent_record ''code-reviewer''
       (YDict [(''name'', YStr ''reviewer''), (''system_prompt'', YStr ''Review the code.'')]) =
       Inr (frontmatter, body) \<and>
     map_of frontmatter ''system_prompt'' = None \<and>
     map_of frontmatter ''name'' = Some (YStr ''reviewer'') \<and>
     map_of frontmatter ''tools'' = None \<and>
     map_of frontmatter ''type'' = Some (YStr ''agent'') \<and>
     map_of frontmatter ''version'' = Some (YStr ''1.0.0'') \<and>
     body = YStr ''Review the code.''"
  using agent_record_contract [of "''code-reviewer''"
      "[(''name'', YStr ''reviewer''), (''system_prompt'', YStr ''Review the code.'')]"]
  by auto

section \<open>The embedding step\<close>

text \<open>
  C7. For a tool record and a skill document that are read, the embedding step skips
  the record, with the message on the missing skill directory reference and the files
  unchanged, exactly when the record has an \<open>implementation\<close> field whose string form
  does not contain \<open>skill_directory\<close>. In every other case, when the file can be
  written, the record written back has the whole text of the skill document as
  \<open>system_prompt\<close>, the mapping \<open>{type: embedded, scripts_directory: scripts}\<close> as
  \<open>implementation\<close>, and every other field as before.
\<close>

theorem embed_contract:
  assumes "files s skill_md_path = Some skill_content"
    and "read_yaml load s tool_yaml_path = Inr (YDict tool_data)"
  shows "(embed_system_prompt load dump s tool_yaml_path skill_md_path =
            Inr ((False, NoSkillDirectoryReference), s)
          \<longleftrightarrow> (\<exists>impl. map_of tool_data ''implementation'' = Some impl \<and>
                       \<not> contains ''skill_directory'' (py_str impl))) \<and>
         ((\<forall>impl. map_of tool_data ''implementation'' = Some impl \<longrightarrow>
                  contains ''skill_directory'' (py_str impl)) \<longrightarrow>
          \<not> read_only s tool_yaml_path \<longrightarrow>
          (\<exists>record.
             embed_system_prompt load dump s tool_yaml_path skill_md_path =
               Inr ((True, Updated),
                    s\<lparr>files := (files s)(tool_yaml_path \<mapsto> dump (YDict record))\<rparr>) \<and>
             map_of record ''system_prompt'' = Some (YStr skill_content) \<and>
             map_of record ''implementation'' =
               Some (YDict [(''type'', YStr ''embedded''),
                            (''scripts_directory'', YStr ''scripts'')]) \<and>
             (\<forall>k. k \<noteq> ''system_prompt'' \<longrightarrow> k \<noteq> ''implementation'' \<longrightarrow>
                  map_of record k = map_of tool_data k)))"
proof (cases "needs_no_update tool_data")
  case True
  then have "\<exists>impl. map_of tool_data ''implementation'' = Some impl \<and>
                       \<not> contains ''skill_directory'' (py_str impl)"
    by (auto simp: needs_no_update_def has_key_def dict_get_def)
  with True assms show ?thesis by (auto simp: embed_system_prompt_def)
next
  case False
  then have no: "\<not> (\<exists>impl. map_of tool_data ''implementation'' = Some impl \<and>
                       \<not> contains ''skill_directory'' (py_str impl))"
    by (auto simp: needs_no_update_def has_key_def dict_get_def)
  have 1: "embed_system_prompt load dump s tool_yaml_path skill_md_path \<noteq>
            Inr ((False, NoSkillDirectoryReference), s)"
    using False assms by (simp add: embed_system_prompt_def)
  have 2: "\<not> read_only s tool_yaml_path \<Longrightarrow>
      embed_system_prompt load dump s tool_yaml_path skill_md_path =
        Inr ((True, Updated),
          s\<lparr>files := (files s)(tool_yaml_path \<mapsto> dump (YDict (embed_record tool_data skill_content)))\<rparr>)"
    using False assms by (simp add: embed_system_prompt_def)
  have 3: "map_of (embed_record tool_data skill_content) ''system_prompt'' = Some (YStr skill_content)"
    "map_of (embed_record tool_data skill_content) ''implementation'' =
       Some (YDict [(''type'', YStr ''embedded''), (''scripts_directory'', YStr ''scripts'')])"
    "\<And>k. k \<noteq> ''system_prompt'' \<Longrightarrow> k \<noteq> ''implementation'' \<Longrightarrow>
         map_of (embed_record tool_data skill_content) k = map_of tool_data k"
    by (simp_all add: embed_record_def map_of_dict_set embedded_implementation_def)
  from no 1 2 3 show ?thesis by blast
qed

lemmas repr_eval = py_str_def repr_str_def repr_char_def contains_def Let_def

lemmas example_eval = example_fs_def example_files_def example_dirs_def read_yaml_def
  safe_load_ref_def

theorem embed_contract_witness:
  "\<exists>record.
     embed_system_prompt safe_load_ref dump_ref example_fs
       [''plugins'', ''work'', ''tools'', ''fetch'', ''tool.yaml'']
       [''plugins'', ''work'', ''skills'', ''fetch'', ''SKILL.md''] =
       Inr ((True, Updated),
            example_fs\<lparr>files := (files example_fs)
              ([''plugins'', ''work'', ''tools'', ''fetch'', ''tool.yaml''] \<mapsto>
                 dump_ref (YDict record))\<rparr>) \<and>
     map_of record ''system_prompt'' = Some (YStr ''Fetch things.\<newline>'') \<and>
     map_of record ''implementation'' =
       Some (YDict [(''type'', YStr ''embedded''), (''scripts_directory'', YStr ''scripts'')])"
proof -
  let ?yaml = "[''plugins'', ''work'', ''tools'', ''fetch'', ''tool.yaml'']"
  let ?skill = "[''plugins'', ''work'', ''skills'', ''fetch'', ''SKILL.md'']"
  let ?td = "[(''implementation'', YDict [(''skill_directory'', YStr ''skills/fetch'')])]"
  have 1: "files example_fs ?skill = Some ''Fetch things.\<newline>''"
    by (simp add: example_eval)
  have 2: "read_yaml safe_load_ref example_fs ?yaml = Inr (YDict ?td)"
    by (simp add: example_eval)
  have 3: "contains ''skill_directory'' (py_str (YDict [(''skill_directory'', YStr ''skills/fetch'')]))"
    by (simp add: repr_eval)
  have 4: "\<forall>impl. map_of ?td ''implementation'' = Some impl \<longrightarrow>
             contains ''skill_directory'' (py_str impl)"
    using 3 by simp
  have 5: "\<not> read_only example_fs ?yaml" by (simp add: example_fs_def)
  from embed_contract [OF 1 2, of dump_ref] 4 5 show ?thesis by blast
qed

section \<open>The batch drivers\<close>

lemma convert_tools_exception_aborts:
  "convert_tool_yaml_to_md load dump (store t)
     [''plugins'', plugin_name, ''tools'', tool_name, ''tool.yaml''] = Inl e \<Longrightarrow>
   convert_tools load dump ((plugin_name, tool_name) # rest) t = Inl e"
  by simp

lemma convert_tools_failure_continues:
  "convert_tool_yaml_to_md load dump (store t)
     [''plugins'', plugin_name, ''tools'', tool_name, ''tool.yaml''] = Inr ((False, m), s') \<Longrightarrow>
   convert_tools load dump ((plugin_name, tool_name) # rest) t =
   convert_tools load dump rest
     (t\<lparr>store := s', errors := errors t + 1,
        printed := printed t @ [(plugin_name, tool_name, m)]\<rparr>)"
  by simp

lemma embed_tools_exception_continues:
  assumes "files (embed_store t) [''plugins'', plugin, ''tools'', tool_name, ''tool.yaml''] = Some y"
    and "files (embed_store t) [''plugins'', plugin, ''skills'', tool_name, ''SKILL.md''] = Some m"
    and "embed_system_prompt load dump (embed_store t)
           [''plugins'', plugin, ''tools'', tool_name, ''tool.yaml'']
           [''plugins'', plugin, ''skills'', tool_name, ''SKILL.md''] = Inl e"
  shows "embed_tools load dump plugin ((tool_name, True) # rest) t =
         embed_tools load dump plugin rest (t\<lparr>embed_errors := embed_errors t + 1\<rparr>)"
  using assms by (simp add: Let_def)

lemma tool_yaml_not_a_mapping:
  assumes "read_yaml load s tool_yaml_path = Inr loaded" and "\<And>d. loaded \<noteq> YDict d"
  shows "convert_tool_yaml_to_md load dump s tool_yaml_path = Inl AttributeError"
proof -
  have "convert_tool_record load (path_name (butlast tool_yaml_path)) loaded = Inl AttributeError"
  proof (cases loaded)
    case (YDict d)
    with assms(2) [of d] show ?thesis by simp
  qed (simp_all add: convert_tool_record_def)
  with assms(1) show ?thesis by (simp add: convert_tool_yaml_to_md_def Let_def)
qed

text \<open>
  C9 at a tree whose first tool has an empty \<open>tool.yaml\<close>: the file loads as null,
  \<open>tool_data.get\<close> raises, and the exception leaves \<open>main\<close>; the second tool is not
  converted and no summary is made.
\<close>

theorem convert_main_aborts_on_exception:
  "convert_tool_yaml_to_md safe_load_ref dump_ref example_fs
     [''plugins'', ''work'', ''tools'', ''broken'', ''tool.yaml''] = Inl AttributeError \<and>
   convert_main safe_load_ref dump_ref example_fs [(''work'', ''broken''), (''work'', ''noop'')] [] =
     Inl AttributeError"
  by (simp add: convert_main_def convert_tool_yaml_to_md_def convert_tool_record_def example_eval)

text \<open>
  The driver of the embedding on the same tree: the exception of the first tool is
  counted as an error and the other tools are processed.
\<close>

lemma embed_main_counts_exception:
  "embed_system_prompt safe_load_ref dump_ref example_fs
     [''plugins'', ''work'', ''tools'', ''broken'', ''tool.yaml'']
     [''plugins'', ''work'', ''skills'', ''broken'', ''SKILL.md''] = Inl TypeError \<and>
   fst (embed_main safe_load_ref dump_ref example_fs) = 1 \<and>
   updated (snd (embed_main safe_load_ref dump_ref example_fs)) = 1 \<and>
   skipped (snd (embed_main safe_load_ref dump_ref example_fs)) = 2 \<and>
   embed_errors (snd (embed_main safe_load_ref dump_ref example_fs)) = 1"
  by (simp add: embed_main_def plugins_def embed_system_prompt_def needs_no_update_def
      has_key_def dict_get_def repr_eval example_eval)

section \<open>Serializing and splitting again\<close>

lemma strip_trimmed:
  assumes "s = [] \<or> (\<not> is_space (hd s) \<and> \<not> is_space (last s))"
  shows "strip s = s"
proof (cases "s = []")
  case True
  then show ?thesis by (simp add: strip_def)
next
  case False
  with assms have h: "\<not> is_space (hd s)" and l: "\<not> is_space (last s)" by auto
  from h have 1: "dropWhile is_space s = s" by (simp add: dropWhile_eq_self_iff)
  from False l have "dropWhile is_space (rev s) = rev s"
    by (simp add: dropWhile_eq_self_iff hd_rev)
  with 1 show ?thesis by (simp add: strip_def)
qed

lemma strip_is_trimmed:
  "strip s = [] \<or> (\<not> is_space (hd (strip s)) \<and> \<not> is_space (last (strip s)))"
proof (cases "strip s = []")
  case True
  then show ?thesis by simp
next
  case False
  define u where "u = dropWhile is_space s"
  define v where "v = dropWhile is_space (rev u)"
  have s: "strip s = rev v" by (simp add: strip_def u_def v_def)
  with False have v: "v \<noteq> []" by simp
  then have "\<not> is_space (hd v)" unfolding v_def by (rule hd_dropWhile)
  then have last: "\<not> is_space (last (strip s))" using v by (simp add: s last_rev)
  from v obtain x where x: "x \<in> set (rev u)" "\<not> is_space x"
    unfolding v_def by auto
  then have "last v = last (rev u)" unfolding v_def by (rule dropWhile_last)
  moreover from x have u: "u \<noteq> []" by auto
  ultimately have "last v = hd u" by (simp add: last_rev)
  moreover from u have "\<not> is_space (hd u)" unfolding u_def by (rule hd_dropWhile)
  ultimately have "\<not> is_space (hd (strip s))" using v by (simp add: s hd_rev)
  with last show ?thesis by simp
qed

lemma strip_idem: "strip (strip s) = strip s"
  using strip_is_trimmed [of s] by (rule strip_trimmed)

lemma strip_space_Cons: "is_space c \<Longrightarrow> strip (c # s) = strip s"
  by (simp add: strip_def)

lemma strip_space_snoc:
  assumes "is_space c"
  shows "strip (s @ [c]) = strip s"
proof (cases "\<forall>x\<in>set s. is_space x")
  case True
  then have a: "dropWhile is_space s = []" by simp
  from True assms have b: "dropWhile is_space (s @ [c]) = []" by simp
  show ?thesis unfolding strip_def a b by simp
next
  case False
  then obtain x where "x \<in> set s" "\<not> is_space x" by blast
  then have "dropWhile is_space (s @ [c]) = dropWhile is_space s @ [c]"
    by (rule dropWhile_append1)
  with assms show ?thesis by (simp add: strip_def)
qed

lemma startswith_strip:
  assumes "p \<noteq> []" and "\<not> is_space (hd p)" and "\<not> is_space (last p)"
  shows "startswith (strip (p @ t)) p"
proof -
  from assms have 1: "dropWhile is_space (p @ t) = p @ t"
    by (simp add: dropWhile_eq_self_iff)
  from assms have 2: "dropWhile is_space (rev p) = rev p"
    by (simp add: dropWhile_eq_self_iff hd_rev)
  have "\<exists>t'. dropWhile is_space (rev t @ rev p) = t' @ rev p"
  proof (cases "\<forall>x\<in>set (rev t). is_space x")
    case True
    then have "dropWhile is_space (rev t @ rev p) = dropWhile is_space (rev p)"
      by (intro dropWhile_append2) auto
    with 2 show ?thesis by simp
  next
    case False
    then obtain x where "x \<in> set (rev t)" "\<not> is_space x" by blast
    then have "dropWhile is_space (rev t @ rev p) = dropWhile is_space (rev t) @ rev p"
      by (rule dropWhile_append1)
    then show ?thesis by blast
  qed
  then obtain t' where "dropWhile is_space (rev (p @ t)) = t' @ rev p" by auto
  with 1 have "strip (p @ t) = p @ rev t'" by (simp add: strip_def)
  then show ?thesis by (simp add: startswith_def)
qed

lemma contains_Cons_other:
  "c \<noteq> CHR ''-'' \<Longrightarrow> contains ''---'' (c # s) = contains ''---'' s"
  by (simp add: contains_def)

lemma find_sub_delimiter:
  assumes "\<not> contains ''---'' d" and "d \<noteq> [] \<longrightarrow> last d \<noteq> CHR ''-''"
  shows "find_sub ''---'' (d @ ''---'' @ r) = Some (d, r)"
  using assms
proof (induction d)
  case Nil
  show ?case by simp
next
  case (Cons c cs)
  from Cons.prems(1) have np: "\<not> prefix ''---'' (c # cs)" and nc: "\<not> contains ''---'' cs"
    by (auto simp: contains_def split: if_splits)
  from Cons.prems(2) have l: "cs \<noteq> [] \<longrightarrow> last cs \<noteq> CHR ''-''" by auto
  have "\<not> prefix ''---'' (c # cs @ ''---'' @ r)"
  proof (cases cs)
    case Nil
    with Cons.prems(2) show ?thesis by simp
  next
    case (Cons x xs)
    note cs = Cons
    show ?thesis
    proof (cases xs)
      case Nil
      with cs l show ?thesis by simp
    next
      case (Cons y ys)
      with cs np show ?thesis by simp
    qed
  qed
  with Cons.IH [OF nc l] show ?case by simp
qed

lemma parse_body_trimmed:
  "parse_embedded_skill_md load content = Inr (skill_frontmatter, skill_body) \<Longrightarrow>
   strip skill_body = skill_body"
  by (auto simp: parse_embedded_skill_md_def Let_def strip_idem split: if_splits sum.splits)

lemma heading_trimmed: "strip (''# '' @ t @ ''.'') = ''# '' @ t @ ''.''"
  by (rule strip_trimmed) (simp add: is_space_def)

lemma utility_body_trimmed: "strip (utility_body name) = utility_body name"
proof -
  have "utility_body name =
       ''# '' @ (title (replace_dash name) @ ''\<newline>\<newline>Utility tool with no system prompt'') @ ''.''"
    by (simp add: utility_body_def)
  then show ?thesis using heading_trimmed by metis
qed

lemma no_content_body_trimmed: "strip (no_content_body name) = no_content_body name"
  by (rule strip_trimmed) (simp add: no_content_body_def is_space_def)

lemma tool_body_trimmed:
  assumes "convert_tool_record load tool_name loaded = Inr (frontmatter, body)"
  shows "strip body = body"
  using assms
  by (auto simp: convert_tool_record_def Let_def utility_body_trimmed no_content_body_trimmed
      split: yval.splits if_splits sum.splits prod.splits dest: parse_body_trimmed)

text \<open>
  C6, as the code has it. A frontmatter and a body are serialized as the converters
  do. If the body is already trimmed (as every body of the tool converter is, by
  \<open>tool_body_trimmed\<close>), the dumped fields end with a newline and do not contain
  \<open>---\<close>, and the loader maps the trimmed dumped fields back to the frontmatter, then
  the splitter applied to the serialized text returns this frontmatter and this body.
\<close>

theorem round_trip:
  assumes "strip body = body"
    and "dump (YDict frontmatter) = text @ ''\<newline>''"
    and "\<not> contains ''---'' (dump (YDict frontmatter))"
    and "load (strip (dump (YDict frontmatter))) = Inr (YDict frontmatter)"
  shows "parse_embedded_skill_md load (serialize_md dump frontmatter body) =
         Inr (YDict frontmatter, body)"
proof -
  let ?d = "dump (YDict frontmatter)"
  let ?rest = "''\<newline>\<newline>'' @ body @ ''\<newline>''"
  let ?s = "serialize_md dump frontmatter body"
  have s: "?s = ''---'' @ (CHR 0x0A # ?d) @ ''---'' @ ?rest"
    by (simp add: serialize_md_def)
  have "startswith (strip (''---'' @ ((CHR 0x0A # ?d) @ ''---'' @ ?rest))) ''---''"
    by (rule startswith_strip) (simp_all add: is_space_def)
  then have 1: "startswith (strip ?s) ''---''" by (simp add: s)
  have nc: "\<not> contains ''---'' (CHR 0x0A # ?d)"
    using assms(3) by (simp add: contains_Cons_other)
  have nl: "CHR 0x0A # ?d \<noteq> [] \<longrightarrow> last (CHR 0x0A # ?d) \<noteq> CHR ''-''"
    by (simp add: assms(2))
  have f2: "find_sub ''---'' ((CHR 0x0A # ?d) @ ''---'' @ ?rest) = Some (CHR 0x0A # ?d, ?rest)"
    using nc nl by (rule find_sub_delimiter)
  have f1: "find_sub ''---'' ?s = Some ([], (CHR 0x0A # ?d) @ ''---'' @ ?rest)"
    by (simp add: serialize_md_def)
  have 2: "split ?s ''---'' 2 = [[], CHR 0x0A # ?d, ?rest]"
    using f1 f2 by (simp add: numeral_2_eq_2)
  have 3: "strip (CHR 0x0A # ?d) = strip ?d"
    by (rule strip_space_Cons) (simp add: is_space_def)
  have "strip ((CHR 0x0A # CHR 0x0A # body) @ [CHR 0x0A]) = strip (CHR 0x0A # CHR 0x0A # body)"
    by (rule strip_space_snoc) (simp add: is_space_def)
  also have "\<dots> = strip (CHR 0x0A # body)"
    by (rule strip_space_Cons) (simp add: is_space_def)
  also have "\<dots> = strip body"
    by (rule strip_space_Cons) (simp add: is_space_def)
  finally have 4: "strip ?rest = body" using assms(1) by simp
  show ?thesis
    using 1 2 3 4 assms(4) by (cases frontmatter) (simp_all add: parse_embedded_skill_md_def)
qed

theorem round_trip_witness:
  "parse_embedded_skill_md safe_load_ref
     (serialize_md dump_ref [(''type'', YStr ''agent''), (''version'', YStr ''1.0.0'')] ''Hello'') =
   Inr (YDict [(''type'', YStr ''agent''), (''version'', YStr ''1.0.0'')], ''Hello'')"
proof -
  let ?fm = "[(''type'', YStr ''agent''), (''version'', YStr ''1.0.0'')]"
  have 1: "strip ''Hello'' = ''Hello''" by (simp add: text_eval)
  have 2: "dump_ref (YDict ?fm) = ''type: agent\<newline>version: 1.0.0'' @ ''\<newline>''"
    by (simp add: dump_ref_def)
  have 3: "\<not> contains ''---'' (dump_ref (YDict ?fm))"
    by (simp add: dump_ref_def contains_def)
  have 4: "safe_load_ref (strip (dump_ref (YDict ?fm))) = Inr (YDict ?fm)"
    by (simp add: dump_ref_def text_eval safe_load_ref_def)
  from round_trip [where load = safe_load_ref and dump = dump_ref and frontmatter = ?fm
      and body = "''Hello''", OF 1 2 3 4]
  show ?thesis .
qed

text \<open>
  An agent record with \<open>type\<close>, \<open>version\<close> and the system prompt \<open>Hello\n\<close> (what a
  YAML block scalar gives): nothing is defaulted, the body written is \<open>Hello\n\<close>, and
  the splitter returns the body \<open>Hello\<close>.
\<close>

theorem round_trip_untrimmed_body_counterexample:
  "convert_agent_record ''helper''
     (YDict [(''type'', YStr ''agent''), (''version'', YStr ''1.0.0''),
             (''system_prompt'', YStr ''Hello\<newline>'')]) =
     Inr ([(''type'', YStr ''agent''), (''version'', YStr ''1.0.0'')], YStr ''Hello\<newline>'') \<and>
   parse_embedded_skill_md safe_load_ref
     (serialize_md dump_ref [(''type'', YStr ''agent''), (''version'', YStr ''1.0.0'')]
        ''Hello\<newline>'') =
     Inr (YDict [(''type'', YStr ''agent''), (''version'', YStr ''1.0.0'')], ''Hello'') \<and>
   ''Hello'' \<noteq> ''Hello\<newline>''"
  by (simp add: convert_agent_record_def has_key_def dict_get_def dict_without_def
      parse_embedded_skill_md_def serialize_md_def dump_ref_def safe_load_ref_def text_eval)

end
